theory Spec2Isabelle
  imports Main
begin

section \<open>Markup\<close>

text \<open>
  A component of the front end is a pure function that returns a JSX tree. The tree has
  text nodes, elements (a host tag such as \<open>div\<close>, or a component of an external package
  such as \<open>UserButton\<close>: a name, the props as written, the children) and the two
  session gates \<open>SignedIn\<close> and \<open>SignedOut\<close> that the components import from the
  identity package.
\<close>

datatype jsx =
    Text string
  | Element string "(string \<times> string) list" "jsx list"
  | SignedIn "jsx list"
  | SignedOut "jsx list"

fun name_of :: "jsx \<Rightarrow> string" where
  "name_of (Text t) = ''#text''"
| "name_of (Element n ps cs) = n"
| "name_of (SignedIn cs) = ''SignedIn''"
| "name_of (SignedOut cs) = ''SignedOut''"

fun children_of :: "jsx \<Rightarrow> jsx list" where
  "children_of (Text t) = []"
| "children_of (Element n ps cs) = cs"
| "children_of (SignedIn cs) = cs"
| "children_of (SignedOut cs) = cs"

text \<open>Every node of a tree, the root first, in document order.\<close>

fun nodes :: "jsx \<Rightarrow> jsx list" where
  "nodes (Text t) = [Text t]"
| "nodes (Element n ps cs) = Element n ps cs # concat (map nodes cs)"
| "nodes (SignedIn cs) = SignedIn cs # concat (map nodes cs)"
| "nodes (SignedOut cs) = SignedOut cs # concat (map nodes cs)"

text \<open>A component or tag of the given name occurs somewhere in a list of trees.\<close>

definition occurs :: "string \<Rightarrow> jsx list \<Rightarrow> bool" where
  "occurs n ts = (n \<in> set (map name_of (concat (map nodes ts))))"

text \<open>
  The nodes that lie strictly below some element named \<open>p\<close>: a React context is available
  to exactly the nodes below its provider.
\<close>

definition beneath :: "string \<Rightarrow> jsx \<Rightarrow> jsx list" where
  "beneath p t =
     concat (map (\<lambda>n. concat (map nodes (children_of n)))
                 (filter (\<lambda>n. name_of n = p) (nodes t)))"

section \<open>Session\<close>

text \<open>
  The session check is made by the external identity service. Its outcome is an error or
  the answer whether a user is signed in.
\<close>

datatype check_error = CheckFailed | TimedOut | Unreachable

type_synonym session = "check_error + bool"

text \<open>
  Modelled from the spec: the attribute \<open>signedIn\<close> of the session as the
  Identity/Session Provider exposes it. The provider belongs to the external identity
  package and is not part of the sources. The spec makes it fail closed: a failed check,
  a timeout and an unreachable service are all treated as signed out.
\<close>

fun signedIn :: "session \<Rightarrow> bool" where
  "signedIn (Inl e) = False"
| "signedIn (Inr b) = b"

text \<open>
  Modelled from the spec: the two gate components of the identity package, which are not
  part of the sources. \<open>SignedIn\<close> is the slot rendered only when authenticated,
  \<open>SignedOut\<close> the slot rendered only when unauthenticated; a gate renders its children
  in place or renders nothing. Everything else renders as it is, with its children
  rendered.
\<close>

fun render :: "session \<Rightarrow> jsx \<Rightarrow> jsx list" where
  "render s (Text t) = [Text t]"
| "render s (Element n ps cs) = [Element n ps (concat (map (render s) cs))]"
| "render s (SignedIn cs) = (if signedIn s then concat (map (render s) cs) else [])"
| "render s (SignedOut cs) = (if signedIn s then [] else concat (map (render s) cs))"

text \<open>
  The gate views that a render of the tree shows: one entry for every gate whose slot is
  rendered.
\<close>

datatype view = SignedInView | SignedOutView

fun views :: "session \<Rightarrow> jsx \<Rightarrow> view list" where
  "views s (Text t) = []"
| "views s (Element n ps cs) = concat (map (views s) cs)"
| "views s (SignedIn cs) =
     (if signedIn s then SignedInView # concat (map (views s) cs) else [])"
| "views s (SignedOut cs) =
     (if signedIn s then [] else SignedOutView # concat (map (views s) cs))"

section \<open>Components\<close>

text \<open>
  \<open>Navbar\<close> (components/Navbar.tsx). The hook \<open>useTheme\<close> is the explicit argument:
  the component reads \<open>resolvedTheme\<close> from it, a string or undefined.
\<close>

definition Navbar :: "string option \<Rightarrow> jsx" where
  "Navbar resolvedTheme =
     Element ''nav''
       [(''className'', ''bg-gradient-to-r from-blue-50 dark:from-ebony to-background w-full flex justify-between items-center p-4 border-b  h-24'')]
       [Element ''div'' [(''className'', ''text-3xl font-bold text-blue-600 cursor-pointer'')]
          [Text ''Camply''],
        Element ''div'' [(''className'', ''flex gap-4'')]
          [SignedIn [Element ''UserButton'' [] []],
           SignedOut
             [Element ''SignInButton'' []
                [Element ''Button'' [(''variant'', ''blue''), (''size'', ''lg'')]
                   [Text ''Sign In'']]],
           Element ''ToggleTheme'' [] []]]"

text \<open>\<open>HeroSection\<close> (components/HeroSection.tsx).\<close>

definition HeroSection :: jsx where
  "HeroSection =
     Element ''div'' [(''className'', '' p-4 flex flex-col gap-4 justify-center items-center'')]
       [Element ''div''
          [(''className'', ''text-2xl text-center md:text-4xl lg:text-6xl font-bold bg-gradient-to-r from-blue-800 to-blue-500 bg-clip-text text-transparent'')]
          [Text ''Transform Your Approach to Campaign Management''],
        Element ''p''
          [(''className'', ''md:w-sm text-sm text-center text-jet  dark:text-gray-300 md:text-xl lg:text-2xl'')]
          [Text ''Revolutionize the way you manage tasks, boost productivity, and achieve seamless collaboration with innovative project management strategies.''],
        SignedOut
          [Element ''SignUpButton'' []
             [Element ''Button'' [(''variant'', ''blue''), (''size'', ''lg'')]
                [Text ''Get Started'']]]]"

text \<open>\<open>Home\<close> (app/page.tsx).\<close>

definition Home :: jsx where
  "Home =
     Element ''div''
       [(''className'', ''bg-radial from-background to-blue-50 dark:from-ebony dark:to-background flex flex-col min-h-[32rem] items-center justify-center w-full'')]
       [HeroSection]"

text \<open>\<open>AppProviders\<close> (providers/AppProviders.tsx): the props it gives the theme provider, and the tree.\<close>

definition theme_provider_props :: "(string \<times> string) list" where
  "theme_provider_props =
     [(''attribute'', ''class''), (''defaultTheme'', ''system''),
      (''enableSystem'', ''true''), (''disableTransitionOnChange'', ''true'')]"

definition AppProviders :: "jsx list \<Rightarrow> jsx" where
  "AppProviders children =
     Element ''ThemeProvider'' theme_provider_props
       [Element ''ClerkProvider'' [] children]"

text \<open>
  \<open>RootLayout\<close> (app/layout.tsx). The class names that the font loader generates for
  the two fonts are arguments, and so is what \<open>useTheme\<close> gives the Navbar.
\<close>

definition RootLayout :: "string \<Rightarrow> string \<Rightarrow> string option \<Rightarrow> jsx list \<Rightarrow> jsx" where
  "RootLayout geistSans_variable geistMono_variable resolvedTheme children =
     Element ''html'' [(''lang'', ''en''), (''suppressHydrationWarning'', ''true'')]
       [Element ''body''
          [(''className'', geistSans_variable @ '' '' @ geistMono_variable @ '' antialiased'')]
          [AppProviders
             [Navbar resolvedTheme,
              Element ''div'' [(''className'', '''')] children]]]"

section \<open>Theme state\<close>

text \<open>
  Modelled from the spec: the Theme State Provider (providers/ThemeProvider.tsx, which is
  not part of the sources). The state is the persisted preference, a string under one key
  of the client-side storage or nothing, and the scheme signal of the host environment.
  The mode is the persisted value, or the provider's \<open>defaultTheme\<close> prop when nothing
  is persisted, or \<open>system\<close>; a value that is not a mode falls back to \<open>system\<close>. The
  resolved mode is the mode itself when it is \<open>light\<close> or \<open>dark\<close>, and the host's scheme
  when the mode is \<open>system\<close>. \<open>setMode\<close> writes the preference.
\<close>

datatype scheme = Light | Dark

fun scheme_name :: "scheme \<Rightarrow> string" where
  "scheme_name Light = ''light''"
| "scheme_name Dark = ''dark''"

record theme_state =
  persisted :: "string option"
  host :: scheme

definition valid_mode :: "string \<Rightarrow> bool" where
  "valid_mode v = (v = ''light'' \<or> v = ''dark'' \<or> v = ''system'')"

definition sanitize :: "string \<Rightarrow> string" where
  "sanitize v = (if valid_mode v then v else ''system'')"

definition mode :: "(string \<times> string) list \<Rightarrow> theme_state \<Rightarrow> string" where
  "mode props st =
     sanitize (case persisted st of
                 Some v \<Rightarrow> v
               | None \<Rightarrow> (case map_of props ''defaultTheme'' of
                            Some d \<Rightarrow> d
                          | None \<Rightarrow> ''system''))"

definition resolvedMode :: "(string \<times> string) list \<Rightarrow> theme_state \<Rightarrow> string" where
  "resolvedMode props st =
     (let m = mode props st in if m = ''system'' then scheme_name (host st) else m)"

definition setMode :: "string \<Rightarrow> theme_state \<Rightarrow> theme_state" where
  "setMode v st = st\<lparr>persisted := Some (sanitize v)\<rparr>"

section \<open>Helper facts\<close>

lemma render_Navbar:
  "render s (Navbar rt) =
     [Element ''nav''
       [(''className'', ''bg-gradient-to-r from-blue-50 dark:from-ebony to-background w-full flex justify-between items-center p-4 border-b  h-24'')]
       [Element ''div'' [(''className'', ''text-3xl font-bold text-blue-600 cursor-pointer'')]
          [Text ''Camply''],
        Element ''div'' [(''className'', ''flex gap-4'')]
          ((if signedIn s then [Element ''UserButton'' [] []]
            else [Element ''SignInButton'' []
                    [Element ''Button'' [(''variant'', ''blue''), (''size'', ''lg'')]
                       [Text ''Sign In'']]])
           @ [Element ''ToggleTheme'' [] []])]]"
  by (simp add: Navbar_def)

lemma views_Navbar:
  "views s (Navbar rt) = (if signedIn s then [SignedInView] else [SignedOutView])"
  by (simp add: Navbar_def)

lemma views_HeroSection:
  "views s HeroSection = (if signedIn s then [] else [SignedOutView])"
  by (simp add: HeroSection_def)

lemma views_signed_out: "\<not> signedIn s \<Longrightarrow> SignedInView \<notin> set (views s t)"
  by (induction t) auto

lemma beneath_member:
  assumes "n \<in> set (nodes t)" and "name_of n = p"
    and "c \<in> set (children_of n)" and "x \<in> set (nodes c)"
  shows "x \<in> set (beneath p t)"
  using assms unfolding beneath_def by auto

section \<open>Navigation bar\<close>

text \<open>
  C2. For every session state the Navbar renders the user-identity control
  (\<open>UserButton\<close>) if and only if the session is signed in, and the sign-in trigger
  (\<open>SignInButton\<close>) if and only if it is signed out.
\<close>

theorem Navbar_identity_controls:
  "(occurs ''UserButton'' (render s (Navbar rt)) \<longleftrightarrow> signedIn s) \<and>
   (occurs ''SignInButton'' (render s (Navbar rt)) \<longleftrightarrow> \<not> signedIn s)"
  by (simp add: occurs_def render_Navbar)

section \<open>Hero section\<close>

text \<open>
  C3. For every session state the Hero section renders its static promotional copy, the
  headline and the paragraph, and it renders the sign-up call-to-action
  (\<open>SignUpButton\<close>) if and only if the session is signed out.
\<close>

theorem HeroSection_copy_and_call_to_action:
  "Text ''Transform Your Approach to Campaign Management''
     \<in> set (concat (map nodes (render s HeroSection))) \<and>
   Text ''Revolutionize the way you manage tasks, boost productivity, and achieve seamless collaboration with innovative project management strategies.''
     \<in> set (concat (map nodes (render s HeroSection))) \<and>
   (occurs ''SignUpButton'' (render s HeroSection) \<longleftrightarrow> \<not> signedIn s)"
  by (simp add: occurs_def HeroSection_def)

section \<open>Session views\<close>

text \<open>
  C1, as stated: for every session state each session-aware element, the Navbar and the
  Hero section, renders exactly one of the signed-in view and the signed-out view. This
  fails for the Hero section of a signed-in session: it has no signed-in slot, and its only
  gate, the signed-out one, renders nothing.
\<close>

theorem session_views_counterexample:
  "\<not> ((SignedInView \<in> set (views (Inr True) HeroSection)) \<noteq>
       (SignedOutView \<in> set (views (Inr True) HeroSection)))"
  by (simp add: views_HeroSection)

text \<open>
  C1, amended: for every session state the Navbar renders exactly one of the signed-in view
  and the signed-out view, never both and never neither. The Hero section never renders a
  signed-in view; it renders its signed-out view if and only if the session is signed out,
  at most once, so it never renders both.
\<close>

theorem session_views_amended:
  "((SignedInView \<in> set (views s (Navbar rt))) \<noteq>
      (SignedOutView \<in> set (views s (Navbar rt)))) \<and>
   length (views s (Navbar rt)) = 1 \<and>
   SignedInView \<notin> set (views s HeroSection) \<and>
   (SignedOutView \<in> set (views s HeroSection) \<longleftrightarrow> \<not> signedIn s) \<and>
   length (views s HeroSection) \<le> 1"
  by (simp add: views_Navbar views_HeroSection)

text \<open>
  C4. When the session check fails, times out, or the identity service is unreachable, the
  session counts as signed out: the Navbar renders the sign-in trigger and not the
  user-identity control, and no tree renders a signed-in view.
\<close>

theorem Navbar_fail_closed:
  "occurs ''SignInButton'' (render (Inl e) (Navbar rt)) \<and>
   \<not> occurs ''UserButton'' (render (Inl e) (Navbar rt)) \<and>
   views (Inl e) (Navbar rt) = [SignedOutView] \<and>
   SignedInView \<notin> set (views (Inl e) t)"
  by (simp add: occurs_def render_Navbar views_Navbar views_signed_out)

text \<open>
  C9. For a fixed session state and any two theme values the Navbar renders the same
  markup: it reads \<open>resolvedTheme\<close> and its output does not depend on it.
\<close>

theorem Navbar_ignores_theme:
  "Navbar t1 = Navbar t2 \<and> render s (Navbar t1) = render s (Navbar t2)"
  by (simp add: Navbar_def)

text \<open>
  C10. For every session state, an error of the check included, the Navbar renders the
  theme toggle. Two session states give the same \<open>nav\<close> element with the same brand
  title and the same container that ends with the theme toggle; they differ at most in
  the slot before the toggle, which holds the render of the two gates.
\<close>

theorem Navbar_session_frame:
  "occurs ''ToggleTheme'' (render s (Navbar rt)) \<and>
   (\<exists>attrs brand box slot slot'.
      render s (Navbar rt) =
        [Element ''nav'' attrs
           [brand, Element ''div'' box (slot @ [Element ''ToggleTheme'' [] []])]] \<and>
      render s' (Navbar rt) =
        [Element ''nav'' attrs
           [brand, Element ''div'' box (slot' @ [Element ''ToggleTheme'' [] []])]] \<and>
      children_of brand = [Text ''Camply''] \<and>
      \<not> occurs ''ToggleTheme'' slot \<and> \<not> occurs ''ToggleTheme'' slot')"
  by (simp add: occurs_def render_Navbar)

section \<open>Provider composition\<close>

text \<open>
  C7. The provider shell nests the identity provider inside the theme provider, and in the
  root layout every node of the Navbar and of the page content lies below both providers,
  so both contexts are available to it.
\<close>

theorem providers_enclose_descendants:
  "Element ''ClerkProvider'' [] cs \<in> set (beneath ''ThemeProvider'' (AppProviders cs)) \<and>
   set (nodes (Navbar rt)) \<union> (\<Union>c \<in> set children. set (nodes c))
     \<subseteq> set (beneath ''ThemeProvider'' (RootLayout f1 f2 rt children))
       \<inter> set (beneath ''ClerkProvider'' (RootLayout f1 f2 rt children))"
proof -
  let ?page = "Element ''div'' [(''className'', [])] children"
  let ?inner = "[Navbar rt, ?page]"
  let ?clerk = "Element ''ClerkProvider'' [] ?inner"
  let ?root = "RootLayout f1 f2 rt children"
  have clerk_in: "?clerk \<in> set (nodes ?root)"
    by (simp add: RootLayout_def AppProviders_def)
  have theme_in: "AppProviders ?inner \<in> set (nodes ?root)"
    by (simp add: RootLayout_def AppProviders_def)
  have below_clerk: "x \<in> set (beneath ''ClerkProvider'' ?root)"
    if "c \<in> set ?inner" and "x \<in> set (nodes c)" for c x
    using beneath_member [OF clerk_in _ _ that(2), of "''ClerkProvider''"] that(1) by simp
  have clerk_nodes: "x \<in> set (nodes ?clerk)" if "c \<in> set ?inner" and "x \<in> set (nodes c)" for c x
    using that by auto
  have below_theme: "x \<in> set (beneath ''ThemeProvider'' ?root)"
    if "c \<in> set ?inner" and "x \<in> set (nodes c)" for c x
    using beneath_member [OF theme_in _ _ clerk_nodes [OF that], of "''ThemeProvider''"]
    by (simp add: AppProviders_def)
  have navbar: "x \<in> set (beneath ''ThemeProvider'' ?root) \<inter> set (beneath ''ClerkProvider'' ?root)"
    if "x \<in> set (nodes (Navbar rt))" for x
    using below_theme [of "Navbar rt" x] below_clerk [of "Navbar rt" x] that by simp
  have page: "x \<in> set (beneath ''ThemeProvider'' ?root) \<inter> set (beneath ''ClerkProvider'' ?root)"
    if "c \<in> set children" and "x \<in> set (nodes c)" for c x
  proof -
    from that have "x \<in> set (nodes ?page)" by auto
    then show ?thesis
      using below_theme [of ?page x] below_clerk [of ?page x] by simp
  qed
  have first: "Element ''ClerkProvider'' [] cs \<in> set (beneath ''ThemeProvider'' (AppProviders cs))"
    unfolding beneath_def AppProviders_def by simp
  from navbar page first show ?thesis by blast
qed

theorem providers_enclose_descendants_witness:
  "set (nodes (Navbar None)) \<union> set (nodes Home)
     \<subseteq> set (beneath ''ThemeProvider'' (RootLayout ''a'' ''b'' None [Home]))
       \<inter> set (beneath ''ClerkProvider'' (RootLayout ''a'' ''b'' None [Home]))"
  using providers_enclose_descendants [of "[]" None "[Home]" "''a''" "''b''"] by simp

section \<open>Theme resolution\<close>

text \<open>
  C5. For a mode that is \<open>light\<close> or \<open>dark\<close> the resolved mode equals the mode: after
  the mode is set, and whenever it is the persisted preference.
\<close>

theorem resolvedMode_identity:
  assumes "m = ''light'' \<or> m = ''dark''"
  shows "resolvedMode props (setMode m st) = m \<and>
         (persisted st = Some m \<longrightarrow> mode props st = m \<and> resolvedMode props st = m)"
  using assms
  by (auto simp add: resolvedMode_def mode_def setMode_def sanitize_def valid_mode_def Let_def)

theorem resolvedMode_identity_witness:
  "resolvedMode theme_provider_props (setMode ''dark'' \<lparr>persisted = None, host = Light\<rparr>) = ''dark'' \<and>
   resolvedMode theme_provider_props \<lparr>persisted = Some ''dark'', host = Light\<rparr> = ''dark''"
  using resolvedMode_identity [of "''dark''" theme_provider_props "\<lparr>persisted = None, host = Light\<rparr>"]
    resolvedMode_identity [of "''dark''" theme_provider_props "\<lparr>persisted = Some ''dark'', host = Light\<rparr>"]
  by simp

text \<open>
  C6. A mode value outside \<open>light\<close>, \<open>dark\<close> and \<open>system\<close> falls back to \<open>system\<close>:
  setting it is the same as setting \<open>system\<close>, a persisted one reads as \<open>system\<close>, and
  in both cases the resolved mode is the host's scheme. Resolution has no error result.
\<close>

theorem invalid_mode_falls_back:
  assumes "\<not> valid_mode v"
  shows "setMode v st = setMode ''system'' st \<and>
         mode props (setMode v st) = ''system'' \<and>
         resolvedMode props (setMode v st) = scheme_name (host st) \<and>
         (persisted st = Some v \<longrightarrow>
            mode props st = ''system'' \<and> resolvedMode props st = scheme_name (host st))"
  using assms
  by (simp add: resolvedMode_def mode_def setMode_def sanitize_def valid_mode_def Let_def)

theorem invalid_mode_falls_back_witness:
  "\<not> valid_mode ''purple'' \<and>
   setMode ''purple'' \<lparr>persisted = Some ''light'', host = Dark\<rparr>
     = setMode ''system'' \<lparr>persisted = Some ''light'', host = Dark\<rparr> \<and>
   resolvedMode theme_provider_props (setMode ''purple'' \<lparr>persisted = Some ''light'', host = Dark\<rparr>)
     = ''dark'' \<and>
   resolvedMode theme_provider_props \<lparr>persisted = Some ''purple'', host = Dark\<rparr> = ''dark''"
proof -
  have h: "\<not> valid_mode ''purple''" by (simp add: valid_mode_def)
  show ?thesis
    using h invalid_mode_falls_back [OF h, of "\<lparr>persisted = Some ''light'', host = Dark\<rparr>" theme_provider_props]
      invalid_mode_falls_back [OF h, of "\<lparr>persisted = Some ''purple'', host = Dark\<rparr>" theme_provider_props]
    by (simp add: setMode_def)
qed

text \<open>
  C8. For every state of the theme provider and every chosen mode, \<open>system\<close> included,
  the resolved mode is \<open>light\<close> or \<open>dark\<close> and is never \<open>system\<close>.
\<close>

theorem resolvedMode_concrete:
  "(resolvedMode props st = ''light'' \<or> resolvedMode props st = ''dark'') \<and>
   resolvedMode props st \<noteq> ''system'' \<and>
   (resolvedMode props (setMode v st) = ''light'' \<or> resolvedMode props (setMode v st) = ''dark'') \<and>
   resolvedMode props (setMode v st) \<noteq> ''system''"
proof -
  have concrete: "resolvedMode props t = ''light'' \<or> resolvedMode props t = ''dark''" for t
    by (cases "host t")
      (auto simp add: resolvedMode_def mode_def sanitize_def valid_mode_def Let_def
        split: option.splits)
  have "resolvedMode props t \<noteq> ''system''" for t
    using concrete [of t] by auto
  with concrete show ?thesis by blast
qed

end
